theory Spec2Isabelle
  imports Complex_Main "HOL-Library.Word" "HOL-Library.Sublist"
begin

section \<open>Text and bytes of the JavaScript runtime\<close>

text \<open>
  A JavaScript string is a sequence of UTF-16 code units; a Buffer (one ZeroMQ frame) is a
  sequence of bytes. \<open>js\<close> writes an ASCII literal of the source as a JavaScript string,
  \<open>ascii\<close> as the bytes the transport sees.
\<close>

type_synonym code_unit = "16 word"
type_synonym jsstring = "code_unit list"
type_synonym byte = "8 word"
type_synonym buffer = "byte list"

definition js :: "string \<Rightarrow> jsstring" where
  "js s = map (\<lambda>c. of_nat (of_char c)) s"

definition ascii :: "string \<Rightarrow> buffer" where
  "ascii s = map (\<lambda>c. of_nat (of_char c)) s"

text \<open>
  \<open>Buffer.prototype.toString()\<close> of the runtime (not repository code): UTF-8 decoding that
  never fails. \<open>utf8_scan\<close> is the decoder automaton (code point so far, continuation bytes
  still needed, bounds of the next continuation byte); \<open>None\<close> marks a byte sequence that is
  not UTF-8, which \<open>buffer_toString\<close> turns into U+FFFD. A byte that breaks a sequence is
  read again as the start of the next one.
\<close>

function utf8_scan :: "nat \<Rightarrow> nat \<Rightarrow> nat \<Rightarrow> nat \<Rightarrow> buffer \<Rightarrow> nat option list" where
  "utf8_scan cp need lo hi [] = (if need = 0 then [] else [None])"
| "utf8_scan cp need lo hi (b # bs) =
     (if need = 0 then
        (if unat b < 0x80 then Some (unat b) # utf8_scan 0 0 0x80 0xBF bs
         else if 0xC2 \<le> unat b \<and> unat b \<le> 0xDF then
           utf8_scan (unat b mod 32) 1 0x80 0xBF bs
         else if 0xE0 \<le> unat b \<and> unat b \<le> 0xEF then
           utf8_scan (unat b mod 16) 2
             (if unat b = 0xE0 then 0xA0 else 0x80) (if unat b = 0xED then 0x9F else 0xBF) bs
         else if 0xF0 \<le> unat b \<and> unat b \<le> 0xF4 then
           utf8_scan (unat b mod 8) 3
             (if unat b = 0xF0 then 0x90 else 0x80) (if unat b = 0xF4 then 0x8F else 0xBF) bs
         else None # utf8_scan 0 0 0x80 0xBF bs)
      else if unat b < lo \<or> hi < unat b then None # utf8_scan 0 0 0x80 0xBF (b # bs)
      else if need = 1 then Some (cp * 64 + unat b mod 64) # utf8_scan 0 0 0x80 0xBF bs
      else utf8_scan (cp * 64 + unat b mod 64) (need - 1) 0x80 0xBF bs)"
  by pat_completeness auto
termination
  by (relation "measure (\<lambda>(cp, need, lo, hi, bs). 2 * length bs + (if need = 0 then 0 else 1))")
     auto

definition utf16_units :: "nat \<Rightarrow> jsstring" where
  "utf16_units cp =
     (if cp < 0x10000 then [of_nat cp]
      else [of_nat (0xD800 + (cp - 0x10000) div 1024), of_nat (0xDC00 + (cp - 0x10000) mod 1024)])"

definition buffer_toString :: "buffer \<Rightarrow> jsstring" where
  "buffer_toString b =
     concat (map (\<lambda>r. case r of None \<Rightarrow> [0xFFFD] | Some cp \<Rightarrow> utf16_units cp)
                 (utf8_scan 0 0 0x80 0xBF b))"

definition valid_utf8 :: "buffer \<Rightarrow> bool" where
  "valid_utf8 b = list_all (\<lambda>r. r \<noteq> None) (utf8_scan 0 0 0x80 0xBF b)"

text \<open>
  \<open>String.prototype.split(sep)\<close> with a one-unit separator and \<open>Array.prototype.join(sep)\<close>:
  \<open>split\<close> cuts at every occurrence of the separator and always returns at least one piece
  (\<open>"".split(' ')\<close> is \<open>[""]\<close>).
\<close>

fun split_on :: "'a \<Rightarrow> 'a list \<Rightarrow> 'a list list" where
  "split_on sep [] = [] # []"
| "split_on sep (c # cs) =
     (if c = sep then [] # split_on sep cs
      else (case split_on sep cs of
              [] \<Rightarrow> [c] # []
            | p # ps \<Rightarrow> (c # p) # ps))"

fun join_with :: "'a list \<Rightarrow> 'a list list \<Rightarrow> 'a list" where
  "join_with sep [] = []"
| "join_with sep [p] = p"
| "join_with sep (p # q # ps) = p @ sep @ join_with sep (q # ps)"

section \<open>The renderer: the update handler of App.jsx\<close>

datatype js_error = SyntaxError | TypeError | TransportError jsstring

datatype log_entry = ConsoleLog jsstring | ConsoleError jsstring "js_error option"

text \<open>
  Values that \<open>JSON.parse\<close> returns. Numbers are the runtime's doubles, embedded as reals;
  the handler only tests one for being zero.
\<close>

datatype json =
    JNull
  | JBool bool
  | JNum real
  | JStr jsstring
  | JArr "json list"
  | JObj "(jsstring \<times> json) list"

text \<open>The React state of \<open>App\<close>, and the renderer's console.\<close>

record renderer_state =
  status :: jsstring
  logs :: "jsstring list"
  progress :: json
  r_console :: "log_entry list"

text \<open>
  Lines 13 and 14: \<open>const [topic, ...rest] = msg.split(' '); const dataStr = rest.join(' ')\<close>.
  The destructuring of an empty array would leave \<open>topic\<close> undefined, which the handler only
  ever renders as the text \<open>undefined\<close> and compares with \<open>'progress'\<close>.
\<close>

definition decode_update :: "jsstring \<Rightarrow> jsstring \<times> jsstring" where
  "decode_update msg =
     (case split_on 0x20 msg of
        [] \<Rightarrow> (js ''undefined'', [])
      | topic # rest \<Rightarrow> (topic, join_with [0x20] rest))"

text \<open>\<open>dataStr.replace(/'/g, '"')\<close>: every apostrophe (0x27) becomes a double quote (0x22).\<close>

definition replace_quotes :: "jsstring \<Rightarrow> jsstring" where
  "replace_quotes s = map (\<lambda>c. if c = 0x27 then 0x22 else c) s"

text \<open>\<open>data.value\<close>: a property read throws on \<open>null\<close> and is undefined (\<open>None\<close>) where
  the value has no such property.\<close>

fun get_value :: "json \<Rightarrow> js_error + json option" where
  "get_value JNull = Inl TypeError"
| "get_value (JObj kvs) = Inr (map_of kvs (js ''value''))"
| "get_value _ = Inr None"

fun truthy :: "json \<Rightarrow> bool" where
  "truthy JNull = False"
| "truthy (JBool b) = b"
| "truthy (JNum n) = (n \<noteq> 0)"
| "truthy (JStr s) = (s \<noteq> [])"
| "truthy (JArr _) = True"
| "truthy (JObj _) = True"

text \<open>
  The body of the \<open>try\<close> of lines 21 to 25; \<open>Inl\<close> is a thrown exception. \<open>JSON.parse\<close> is the
  runtime's and is taken as a parameter.
\<close>

definition progress_try ::
  "(jsstring \<Rightarrow> js_error + json) \<Rightarrow> renderer_state \<Rightarrow> jsstring \<Rightarrow> js_error + renderer_state" where
  "progress_try json_parse st dataStr =
     (case json_parse (replace_quotes dataStr) of
        Inl e \<Rightarrow> Inl e
      | Inr data \<Rightarrow>
          (case get_value data of
             Inl e \<Rightarrow> Inl e
           | Inr None \<Rightarrow> Inr st
           | Inr (Some v) \<Rightarrow> if truthy v then Inr (st\<lparr>progress := v\<rparr>) else Inr st))"

definition onUpdate ::
  "(jsstring \<Rightarrow> js_error + json) \<Rightarrow> renderer_state \<Rightarrow> jsstring \<Rightarrow> renderer_state" where
  "onUpdate json_parse st msg =
     (let (topic, dataStr) = decode_update msg;
          st1 = st\<lparr>logs := logs st @ [js ''['' @ topic @ js ''] '' @ dataStr]\<rparr>
      in if topic = js ''progress'' then
           (case progress_try json_parse st1 dataStr of
              Inl e \<Rightarrow> st1\<lparr>r_console := r_console st1 @ [ConsoleError (js ''JSON Parse Error'') (Some e)]\<rparr>
            | Inr st2 \<Rightarrow> st2)
         else st1)"

section \<open>The main process\<close>

text \<open>
  The globals of the main process (\<open>mainWindow\<close>, \<open>pythonProcess\<close>, the two sockets) and
  what it does to the outside: the \<open>zmq-update\<close> messages sent to a window's renderer and
  the console. A ZeroMQ message is a first frame and further frames. Of a worker
  the runtime keeps a process handle, from the spawn until it reports that the process could
  not be started or has exited; \<open>handle\<close> says whether it still holds one.
\<close>

type_synonym window = nat
type_synonym message = "buffer \<times> buffer list"

record child_process =
  cmd :: jsstring
  args :: "jsstring list"
  handle :: bool
  signals :: nat

text \<open>
  What the runtime gives \<open>startBackend\<close>: \<open>app.isPackaged\<close>, \<open>process.platform\<close>,
  \<open>process.resourcesPath\<close>, \<open>__dirname\<close> and the runtime's \<open>path.join\<close>.
\<close>

record runtime =
  isPackaged :: bool
  platform :: jsstring
  resourcesPath :: jsstring
  dirname :: jsstring
  path_join :: "jsstring list \<Rightarrow> jsstring"

record main_state =
  mainWindow :: "window option"
  pythonProcess :: "child_process option"
  subscriptions :: "buffer list"
  receiving :: bool
  reqOpen :: bool
  subOpen :: bool
  windows_created :: nat
  ipc_sent :: "(window \<times> jsstring) list"
  console :: "log_entry list"
  quit_requested :: bool

definition initial_state :: main_state where
  "initial_state =
     \<lparr>mainWindow = None, pythonProcess = None, subscriptions = [], receiving = False,
      reqOpen = True, subOpen = True, windows_created = 0, ipc_sent = [], console = [],
      quit_requested = False\<rparr>"

subsection \<open>The worker process\<close>

text \<open>
  \<open>spawn\<close> and \<open>ChildProcess.kill()\<close> of the runtime (not repository code). \<open>spawn\<close>
  returns the worker object with its handle; a start that fails is reported afterwards, by
  the event \<open>SpawnFailed\<close> below. \<open>kill\<close> delivers the signal through the handle and does
  nothing once the handle is gone, after a failed start as after an exit; it does not raise
  in either case.
\<close>

definition spawn :: "jsstring \<Rightarrow> jsstring list \<Rightarrow> child_process" where
  "spawn c a = \<lparr>cmd = c, args = a, handle = True, signals = 0\<rparr>"

definition kill :: "child_process \<Rightarrow> child_process" where
  "kill p = (if handle p then p\<lparr>signals := Suc (signals p)\<rparr> else p)"

text \<open>
  \<open>startBackend\<close>, lines 118 to 158. \<open>startBackend_launch\<close> is the resolution of
  \<open>scriptPath\<close>, \<open>cmd\<close> and \<open>args\<close> by the two branches on \<open>app.isPackaged\<close>.
\<close>

definition startBackend_launch :: "runtime \<Rightarrow> jsstring \<times> jsstring \<times> jsstring list" where
  "startBackend_launch rt =
     (if isPackaged rt then
        (let executableName = (if platform rt = js ''win32'' then js ''backend.exe'' else js ''backend'');
             scriptPath = path_join rt [resourcesPath rt, executableName]
         in (scriptPath, scriptPath, []))
      else
        (let scriptPath = path_join rt [dirname rt, js ''..'', js ''py_backend'', js ''backend.py'']
         in (scriptPath, if platform rt = js ''win32'' then js ''python'' else js ''python3'',
             [scriptPath])))"

definition startBackend :: "runtime \<Rightarrow> main_state \<Rightarrow> main_state" where
  "startBackend rt st =
     (let (scriptPath, c, a) = startBackend_launch rt;
          line = (if isPackaged rt then js ''[Prod] Launching Python executable from: '' @ scriptPath
                  else js ''[Dev] Launching Python script from: '' @ scriptPath)
      in st\<lparr>console := console st @ [ConsoleLog line], pythonProcess := Some (spawn c a)\<rparr>)"

subsection \<open>The update channel\<close>

text \<open>
  \<open>setupZMQ\<close> up to its first suspension, lines 16 to 30: both sockets connect, the two
  subscriptions are made, and the \<open>for await\<close> starts to receive.
\<close>

definition setupZMQ :: "main_state \<Rightarrow> main_state" where
  "setupZMQ st =
     st\<lparr>subscriptions := subscriptions st @ [ascii ''progress'', ascii ''result''],
        console := console st @ [ConsoleLog (js ''[Electron] Connected to Python ZMQ Sockets.'')],
        receiving := True\<rparr>"

text \<open>
  What one \<open>await\<close> of the socket's iterator gives: a message, a thrown transport error, or
  the end of the iteration after the socket was closed.
\<close>

datatype recv_outcome = Received message | RecvFailed js_error | SocketClosed

text \<open>
  One turn of the loop, lines 30 to 37, inside the \<open>try\<close>: \<open>Inl\<close> is the exception that
  leaves the loop. Decoding a Buffer and sending to an existing window do not throw.
\<close>

definition loop_iteration :: "main_state \<Rightarrow> recv_outcome \<Rightarrow> js_error + main_state" where
  "loop_iteration st r =
     (case r of
        Received m \<Rightarrow>
          (let message = buffer_toString (fst m)
           in case mainWindow st of
                Some w \<Rightarrow> Inr (st\<lparr>ipc_sent := ipc_sent st @ [(w, message)]\<rparr>)
              | None \<Rightarrow> Inr st)
      | RecvFailed err \<Rightarrow> Inl err
      | SocketClosed \<Rightarrow> Inr (st\<lparr>receiving := False\<rparr>))"

text \<open>The turn with the \<open>catch\<close> of lines 38 to 40 around it. A loop that has ended receives nothing.\<close>

definition setupZMQ_turn :: "main_state \<Rightarrow> recv_outcome \<Rightarrow> main_state" where
  "setupZMQ_turn st r =
     (if receiving st then
        (case loop_iteration st r of
           Inl err \<Rightarrow>
             st\<lparr>console := console st @ [ConsoleError (js ''[Electron] ZeroMQ Error:'') (Some err)],
                receiving := False\<rparr>
         | Inr st' \<Rightarrow> st')
      else st)"

text \<open>
  Modelled from the spec: the topic filter of the publish-subscribe transport, which is the
  ZeroMQ library's and not in the source. Section 4.3 has the channel subscribe "to a
  closed set of topic prefixes", section 6 has the subscriber declare "topic prefixes" and
  receive "only matching frames": a message matches when its first frame begins with one
  of the subscribed prefixes.
\<close>

definition zmq_matches :: "buffer list \<Rightarrow> message \<Rightarrow> bool" where
  "zmq_matches subs m = list_ex (\<lambda>p. prefix p (fst m)) subs"

subsection \<open>The command channel\<close>

text \<open>
  The handler of \<open>send-command\<close>, lines 74 to 88. \<open>sent\<close> is what \<open>await sockReq.send(command)\<close>
  did (\<open>Some\<close> error when it threw), \<open>received\<close> what \<open>await sockReq.receive()\<close> did.
  \<open>error_reply\<close> is \<open>JSON.stringify({ error: "Failed to reach backend" })\<close>. The result is
  the settled promise of the handler: \<open>Inl\<close> would be a rejection.
\<close>

definition error_reply :: jsstring where
  "error_reply = js ''{\"error\":\"Failed to reach backend\"}''"

definition send_command_try :: "js_error option \<Rightarrow> js_error + message \<Rightarrow> js_error + jsstring" where
  "send_command_try sent received =
     (case sent of
        Some err \<Rightarrow> Inl err
      | None \<Rightarrow>
          (case received of
             Inl err \<Rightarrow> Inl err
           | Inr m \<Rightarrow> Inr (buffer_toString (fst m))))"

definition send_command ::
  "main_state \<Rightarrow> jsstring \<Rightarrow> js_error option \<Rightarrow> js_error + message
     \<Rightarrow> (js_error + jsstring) \<times> main_state" where
  "send_command st command sent received =
     (let st1 = st\<lparr>console := console st @
                   [ConsoleLog (js ''[Electron] Sending command to Python: '' @ command)]\<rparr>
      in case send_command_try sent received of
           Inl err \<Rightarrow>
             (Inr error_reply,
              st1\<lparr>console := console st1 @ [ConsoleError (js ''ZMQ Send Error:'') (Some err)]\<rparr>)
         | Inr reply \<Rightarrow> (Inr reply, st1))"

subsection \<open>Windows and the application life cycle\<close>

definition createWindow :: "main_state \<Rightarrow> main_state" where
  "createWindow st =
     st\<lparr>mainWindow := Some (windows_created st), windows_created := Suc (windows_created st)\<rparr>"

definition window_closed :: "main_state \<Rightarrow> main_state" where
  "window_closed st = st\<lparr>mainWindow := None\<rparr>"

text \<open>The handler of \<open>will-quit\<close>, lines 169 to 177.\<close>

definition will_quit :: "main_state \<Rightarrow> main_state" where
  "will_quit st =
     (let st1 = (case pythonProcess st of
                   Some p \<Rightarrow> st\<lparr>pythonProcess := Some (kill p)\<rparr>
                 | None \<Rightarrow> st)
      in st1\<lparr>reqOpen := False, subOpen := False\<rparr>)"

text \<open>
  The turns of the event loop of the main process. \<open>Activate n\<close> is the \<open>activate\<close> event
  with \<open>n\<close> windows open. \<open>SpawnFailed\<close> is the \<open>error\<close> event of a worker that could not be
  started: the runtime has dropped its handle, and the handler of lines 155 to 157 logs the
  error. \<open>ChildExit\<close> is the runtime seeing the worker exit and dropping its handle, for
  which \<open>startBackend\<close> registers no handler.
\<close>

datatype event =
    Ready
  | SubOutcome recv_outcome
  | SendCommand jsstring "js_error option" "js_error + message"
  | WindowClosed
  | WindowAllClosed
  | Activate nat
  | WillQuit
  | ChildStdout buffer
  | ChildStderr buffer
  | SpawnFailed js_error
  | ChildExit

fun step :: "runtime \<Rightarrow> main_state \<Rightarrow> event \<Rightarrow> main_state" where
  "step rt st Ready = createWindow (setupZMQ (startBackend rt st))"
| "step rt st (SubOutcome r) = setupZMQ_turn st r"
| "step rt st (SendCommand command sent received) = snd (send_command st command sent received)"
| "step rt st WindowClosed = window_closed st"
| "step rt st WindowAllClosed =
     (if platform rt \<noteq> js ''darwin'' then st\<lparr>quit_requested := True\<rparr> else st)"
| "step rt st (Activate n) = (if n = 0 then createWindow st else st)"
| "step rt st WillQuit = will_quit st"
| "step rt st (ChildStdout d) =
     st\<lparr>console := console st @ [ConsoleLog (js ''[PY]: '' @ buffer_toString d)]\<rparr>"
| "step rt st (ChildStderr d) =
     st\<lparr>console := console st @ [ConsoleError (js ''[PY ERR]: '' @ buffer_toString d) None]\<rparr>"
| "step rt st (SpawnFailed err) =
     (case pythonProcess st of
        Some p \<Rightarrow>
          st\<lparr>pythonProcess := Some (p\<lparr>handle := False\<rparr>),
             console := console st @
               [ConsoleError (js ''[PY FAIL] Failed to start python process:'') (Some err)]\<rparr>
      | None \<Rightarrow> st)"
| "step rt st ChildExit =
     (case pythonProcess st of
        Some p \<Rightarrow> st\<lparr>pythonProcess := Some (p\<lparr>handle := False\<rparr>)\<rparr>
      | None \<Rightarrow> st)"

fun run :: "runtime \<Rightarrow> main_state \<Rightarrow> event list \<Rightarrow> main_state" where
  "run rt st [] = st"
| "run rt st (e # es) = run rt (step rt st e) es"

text \<open>
  The worker publishes a message on the update endpoint: the transport hands it to the
  receive loop only when it matches a subscription.
\<close>

definition publish :: "runtime \<Rightarrow> main_state \<Rightarrow> message \<Rightarrow> main_state" where
  "publish rt st m =
     (if zmq_matches (subscriptions st) m then step rt st (SubOutcome (Received m)) else st)"

section \<open>Example runtimes\<close>

text \<open>
  Two concrete runtimes for the concrete cases below, both on Linux: a development checkout
  and a packaged application. \<open>posix_join\<close> is \<open>path.join\<close> as a POSIX platform
  computes it (the parts joined by a slash, then \<open>.\<close>, \<open>..\<close> and empty segments resolved;
  trailing separators are not kept).
\<close>

fun normalize_segments :: "bool \<Rightarrow> jsstring list \<Rightarrow> jsstring list \<Rightarrow> jsstring list" where
  "normalize_segments ab acc [] = rev acc"
| "normalize_segments ab acc (s # ss) =
     (if s = [] \<or> s = js ''.'' then normalize_segments ab acc ss
      else if s = js ''..'' then
        (case acc of
           [] \<Rightarrow> if ab then normalize_segments ab [] ss else normalize_segments ab [s] ss
         | a # acc' \<Rightarrow>
             if a = js ''..'' then normalize_segments ab (s # acc) ss
             else normalize_segments ab acc' ss)
      else normalize_segments ab (s # acc) ss)"

definition posix_join :: "jsstring list \<Rightarrow> jsstring" where
  "posix_join parts =
     (let joined = join_with (js ''/'') (filter (\<lambda>p. p \<noteq> []) parts);
          ab = (case joined of [] \<Rightarrow> False | c # _ \<Rightarrow> c = 0x2F);
          body = join_with (js ''/'') (normalize_segments ab [] (split_on 0x2F joined))
      in if ab then 0x2F # body else if body = [] then js ''.'' else body)"

definition example_dev :: runtime where
  "example_dev =
     \<lparr>isPackaged = False, platform = js ''linux'', resourcesPath = js ''/opt/app/resources'',
      dirname = js ''/opt/app/electron'', path_join = posix_join\<rparr>"

definition example_packaged :: runtime where
  "example_packaged =
     \<lparr>isPackaged = True, platform = js ''linux'', resourcesPath = js ''/opt/app/resources'',
      dirname = js ''/opt/app/resources/app.asar/electron'', path_join = posix_join\<rparr>"

section \<open>Properties of the renderer\<close>

lemma split_on_not_Nil: "split_on sep xs \<noteq> []"
  by (induction xs) (auto split: list.splits)

lemma split_on_no_sep: "sep \<notin> set xs \<Longrightarrow> split_on sep xs = [xs]"
  by (induction xs) auto

lemma split_on_first: "sep \<notin> set t \<Longrightarrow> split_on sep (t @ sep # p) = t # split_on sep p"
  by (induction t) auto

lemma join_split_on: "join_with [sep] (split_on sep xs) = xs"
proof (induction xs)
  case Nil
  show ?case by simp
next
  case (Cons c cs)
  show ?case
  proof (cases "c = sep")
    case True
    obtain p ps where ps: "split_on sep cs = p # ps"
      using split_on_not_Nil [of sep cs] by (cases "split_on sep cs") auto
    with Cons True show ?thesis by simp
  next
    case False
    obtain p ps where ps: "split_on sep cs = p # ps"
      using split_on_not_Nil [of sep cs] by (cases "split_on sep cs") auto
    with Cons False show ?thesis by (cases ps) auto
  qed
qed


text \<open>
  C1. A frame \<open><topic> <payload>\<close> is cut at its first space only: where the topic holds no
  space, the handler reads exactly the topic before that space and the whole remainder after
  it as payload, further spaces included. The concrete frame of the claim,
  \<open>progress {"value": 50}\<close>, is the case checked after the theorem.
\<close>

theorem decode_update_first_space:
  assumes "0x20 \<notin> set topic"
  shows "decode_update (topic @ 0x20 # payload) = (topic, payload)"
  using assms by (simp add: decode_update_def split_on_first join_split_on)

theorem decode_update_first_space_witness:
  \<open>0x20 \<notin> set (js ''progress'') \<and>
   decode_update (js ''progress {"value": 50}'') = (js ''progress'', js ''{"value": 50}'')\<close>
  using decode_update_first_space [of "js ''progress''" \<open>js ''{"value": 50}''\<close>]
  by (simp add: js_def)

text \<open>
  C4. A frame without whitespace has in particular no space (0x20), the one character the
  handler splits on: it decodes to the whole frame as topic and the empty payload. The
  decoding is a total function, so nothing is raised.
\<close>

theorem decode_update_no_space:
  assumes "0x20 \<notin> set msg"
  shows "decode_update msg = (msg, [])"
  using assms by (simp add: decode_update_def split_on_no_sep)

theorem decode_update_no_space_witness:
  "0x20 \<notin> set (js ''result'') \<and> decode_update (js ''result'') = (js ''result'', [])"
  using decode_update_no_space [of "js ''result''"]
  by (simp add: js_def)

subsection \<open>The progress payload\<close>

lemma replace_quotes_length: "length (replace_quotes s) = length s"
  by (simp add: replace_quotes_def)

lemma replace_quotes_nth:
  "i < length s \<Longrightarrow> replace_quotes s ! i = (if s ! i = 0x27 then 0x22 else s ! i)"
  by (simp add: replace_quotes_def)

lemma replace_quotes_changes: "0x27 \<in> set s \<Longrightarrow> replace_quotes s \<noteq> s"
proof
  assume a: "0x27 \<in> set s" and e: "replace_quotes s = s"
  have "0x27 \<notin> set (replace_quotes s)" by (auto simp: replace_quotes_def)
  with a e show False by simp
qed

lemma onUpdate_progress:
  assumes "decode_update msg = (js ''progress'', payload)"
  shows "onUpdate json_parse st msg =
     (case progress_try json_parse
             (st\<lparr>logs := logs st @ [js ''['' @ js ''progress'' @ js ''] '' @ payload]\<rparr>) payload of
        Inl e \<Rightarrow> st\<lparr>logs := logs st @ [js ''['' @ js ''progress'' @ js ''] '' @ payload],
                    r_console := r_console st @ [ConsoleError (js ''JSON Parse Error'') (Some e)]\<rparr>
      | Inr st2 \<Rightarrow> st2)"
proof (cases "progress_try json_parse
             (st\<lparr>logs := logs st @ [js ''['' @ js ''progress'' @ js ''] '' @ payload]\<rparr>) payload")
  case (Inl e)
  with assms show ?thesis by (simp add: onUpdate_def Let_def)
next
  case (Inr st2)
  with assms show ?thesis by (simp add: onUpdate_def Let_def)
qed

text \<open>
  C10. For a frame whose topic is \<open>progress\<close>, the text handed to \<open>JSON.parse\<close> is the
  payload with every apostrophe replaced by a double quote, position by position: the
  handler depends on the parser only through its result on that text, which differs from
  the delivered payload as soon as the payload holds an apostrophe. When the parser throws,
  the error is logged and the progress state keeps its value.
\<close>

theorem progress_parses_altered_payload:
  assumes "decode_update msg = (js ''progress'', payload)"
  shows "length (replace_quotes payload) = length payload
       \<and> (\<forall>i < length payload.
            replace_quotes payload ! i = (if payload ! i = 0x27 then 0x22 else payload ! i))
       \<and> (0x27 \<in> set payload \<longrightarrow> replace_quotes payload \<noteq> payload)
       \<and> (\<forall>p q. p (replace_quotes payload) = q (replace_quotes payload)
                \<longrightarrow> onUpdate p st msg = onUpdate q st msg)
       \<and> (\<forall>e. json_parse (replace_quotes payload) = Inl e \<longrightarrow>
              progress (onUpdate json_parse st msg) = progress st
            \<and> r_console (onUpdate json_parse st msg) =
                r_console st @ [ConsoleError (js ''JSON Parse Error'') (Some e)])"
proof -
  have d: "\<forall>p q. p (replace_quotes payload) = q (replace_quotes payload)
                \<longrightarrow> onUpdate p st msg = onUpdate q st msg"
  proof (intro allI impI)
    fix p q :: "jsstring \<Rightarrow> js_error + json"
    assume "p (replace_quotes payload) = q (replace_quotes payload)"
    then have "progress_try p s payload = progress_try q s payload" for s
      by (simp add: progress_try_def)
    then show "onUpdate p st msg = onUpdate q st msg"
      by (simp add: onUpdate_progress [OF assms])
  qed
  have f: "\<forall>e. json_parse (replace_quotes payload) = Inl e \<longrightarrow>
              progress (onUpdate json_parse st msg) = progress st
            \<and> r_console (onUpdate json_parse st msg) =
                r_console st @ [ConsoleError (js ''JSON Parse Error'') (Some e)]"
    by (simp add: onUpdate_progress [OF assms] progress_try_def)
  have n: "\<forall>i < length payload.
            replace_quotes payload ! i = (if payload ! i = 0x27 then 0x22 else payload ! i)"
    using replace_quotes_nth by blast
  have c: "0x27 \<in> set payload \<longrightarrow> replace_quotes payload \<noteq> payload"
    using replace_quotes_changes by blast
  from replace_quotes_length [of payload] n c d f show ?thesis
    by (intro conjI)
qed

text \<open>
  The payload \<open>{'value': 50\<close> lacks its closing brace, so \<open>JSON.parse\<close> throws on the
  altered text \<open>{"value": 50\<close>; the parser of the example is right on the texts it is
  asked about.
\<close>

theorem progress_parses_altered_payload_witness:
  \<open>decode_update (js ''progress {'value': 50'') = (js ''progress'', js ''{'value': 50'')
   \<and> 0x27 \<in> set (js ''{'value': 50'')
   \<and> replace_quotes (js ''{'value': 50'') = js ''{"value": 50''
   \<and> replace_quotes (js ''{'value': 50'') \<noteq> js ''{'value': 50''
   \<and> (1::nat) < length (js ''{'value': 50'')
   \<and> replace_quotes (js ''{'value': 50'') ! 1 = 0x22
   \<and> onUpdate (\<lambda>s. if s = js ''{"value": 50}'' then Inr (JObj [(js ''value'', JNum 50)])
                    else Inl SyntaxError)
         \<lparr>status = js ''Idle'', logs = [], progress = JNum 0, r_console = []\<rparr>
         (js ''progress {'value': 50'')
       = onUpdate (\<lambda>s. Inl SyntaxError)
           \<lparr>status = js ''Idle'', logs = [], progress = JNum 0, r_console = []\<rparr>
           (js ''progress {'value': 50'')
   \<and> progress (onUpdate (\<lambda>s. if s = js ''{"value": 50}'' then Inr (JObj [(js ''value'', JNum 50)])
                              else Inl SyntaxError)
         \<lparr>status = js ''Idle'', logs = [], progress = JNum 0, r_console = []\<rparr>
         (js ''progress {'value': 50'')) = JNum 0
   \<and> r_console (onUpdate (\<lambda>s. if s = js ''{"value": 50}'' then Inr (JObj [(js ''value'', JNum 50)])
                              else Inl SyntaxError)
         \<lparr>status = js ''Idle'', logs = [], progress = JNum 0, r_console = []\<rparr>
         (js ''progress {'value': 50''))
       = [ConsoleError (js ''JSON Parse Error'') (Some SyntaxError)]\<close>
proof -
  let ?parse = \<open>\<lambda>s. if s = js ''{"value": 50}'' then Inr (JObj [(js ''value'', JNum 50)])
                    else Inl SyntaxError\<close>
  let ?st = "\<lparr>status = js ''Idle'', logs = [], progress = JNum 0, r_console = []\<rparr>"
  have d: \<open>decode_update (js ''progress {'value': 50'') = (js ''progress'', js ''{'value': 50'')\<close>
    by (simp add: decode_update_def js_def)
  have r: \<open>replace_quotes (js ''{'value': 50'') = js ''{"value": 50''\<close>
    by (simp add: replace_quotes_def js_def)
  have a: \<open>0x27 \<in> set (js ''{'value': 50'')\<close>
    by (simp add: js_def)
  have p: \<open>?parse (js ''{"value": 50'') = Inl SyntaxError\<close>
    by (simp add: js_def)
  note L = progress_parses_altered_payload [OF d, of ?st ?parse]
  note quoted = L [THEN conjunct2, THEN conjunct1, rule_format, of 1]
  note changed = L [THEN conjunct2, THEN conjunct2, THEN conjunct1, rule_format]
  note only_text = L [THEN conjunct2, THEN conjunct2, THEN conjunct2, THEN conjunct1, rule_format,
                      of ?parse "\<lambda>s. Inl SyntaxError"]
  note failure = L [THEN conjunct2, THEN conjunct2, THEN conjunct2, THEN conjunct2, rule_format,
                    of SyntaxError]
  have c: \<open>replace_quotes (js ''{'value': 50'') \<noteq> js ''{'value': 50''\<close>
    using a by (rule changed)
  have q: "?parse (replace_quotes (js ''{'value': 50'')) = Inl SyntaxError"
    unfolding r by (rule p)
  have e: "onUpdate ?parse ?st (js ''progress {'value': 50'')
            = onUpdate (\<lambda>s. Inl SyntaxError) ?st (js ''progress {'value': 50'')"
    using q by (rule only_text)
  have f: "progress (onUpdate ?parse ?st (js ''progress {'value': 50'')) = progress ?st
            \<and> r_console (onUpdate ?parse ?st (js ''progress {'value': 50'')) =
                r_console ?st @ [ConsoleError (js ''JSON Parse Error'') (Some SyntaxError)]"
    using q by (rule failure)
  from f have g: "progress (onUpdate ?parse ?st (js ''progress {'value': 50'')) = JNum 0"
    by simp
  from f have h: "r_console (onUpdate ?parse ?st (js ''progress {'value': 50'')) =
                [ConsoleError (js ''JSON Parse Error'') (Some SyntaxError)]"
    by simp
  have l: \<open>(1::nat) < length (js ''{'value': 50'')\<close>
    by (simp add: js_def)
  have n: \<open>replace_quotes (js ''{'value': 50'') ! 1 = 0x22\<close>
    using quoted [OF l] by (simp add: js_def)
  from d a r c l n e g h show ?thesis by (intro conjI)
qed

section \<open>Properties of the main process\<close>

text \<open>The state of the development example once the application is ready.\<close>

lemma run_example_ready:
  "run example_dev initial_state [Ready] =
     \<lparr>mainWindow = Some 0,
      pythonProcess = Some \<lparr>cmd = js ''python3'', args = [js ''/opt/app/py_backend/backend.py''],
                            handle = True, signals = 0\<rparr>,
      subscriptions = [ascii ''progress'', ascii ''result''],
      receiving = True, reqOpen = True, subOpen = True, windows_created = 1, ipc_sent = [],
      console = [ConsoleLog (js ''[Dev] Launching Python script from: /opt/app/py_backend/backend.py''),
                 ConsoleLog (js ''[Electron] Connected to Python ZMQ Sockets.'')],
      quit_requested = False\<rparr>"
  by (simp add: initial_state_def createWindow_def setupZMQ_def startBackend_def
        startBackend_launch_def example_dev_def posix_join_def spawn_def js_def Let_def)

lemma run_example_exit:
  "run example_dev initial_state [Ready, ChildExit] =
     step example_dev (run example_dev initial_state [Ready]) ChildExit"
  by simp

subsection \<open>The command channel\<close>

text \<open>
  C2. For every command, the handler of \<open>send-command\<close> resolves with the first frame of the
  worker's reply decoded as text when both the send and the receive succeed; when the send or
  the receive throws, it resolves with the JSON text of an object with an \<open>error\<close> field.
  Whatever the send and the receive do once they settle, the handler resolves: no exception
  leaves it.
\<close>

theorem send_command_replies:
  "(sent = None \<and> received = Inr (reply, others) \<longrightarrow>
      fst (send_command st command sent received) = Inr (buffer_toString reply))
 \<and> ((sent \<noteq> None \<or> (\<exists>err. received = Inl err)) \<longrightarrow>
      fst (send_command st command sent received) = Inr error_reply)
 \<and> (\<exists>text. fst (send_command st command sent received) = Inr text)"
  by (auto simp: send_command_def send_command_try_def Let_def split: option.splits sum.splits)

theorem send_command_replies_witness:
  \<open>fst (send_command initial_state (js ''Start-Analysis'') None
          (Inr (ascii ''{"status":"ok","echo":"Start-Analysis"}'', [])))
     = Inr (js ''{"status":"ok","echo":"Start-Analysis"}'')
   \<and> fst (send_command initial_state (js ''Start-Analysis'')
            (Some (TransportError (js ''EHOSTUNREACH''))) (Inl (TransportError (js ''EHOSTUNREACH''))))
     = Inr (js ''{"error":"Failed to reach backend"}'')
   \<and> fst (send_command initial_state (js ''Start-Analysis'') None (Inl (TransportError (js ''EAGAIN''))))
     = Inr (js ''{"error":"Failed to reach backend"}'')\<close>
proof -
  have t: \<open>buffer_toString (ascii ''{"status":"ok","echo":"Start-Analysis"}'')
            = js ''{"status":"ok","echo":"Start-Analysis"}''\<close>
    by (simp add: buffer_toString_def ascii_def js_def utf16_units_def)
  from send_command_replies [of None \<open>Inr (ascii ''{"status":"ok","echo":"Start-Analysis"}'', [])\<close>
         \<open>ascii ''{"status":"ok","echo":"Start-Analysis"}''\<close> "[]" initial_state "js ''Start-Analysis''"]
       send_command_replies [of "Some (TransportError (js ''EHOSTUNREACH''))"
         "Inl (TransportError (js ''EHOSTUNREACH''))" "[]" "[]" initial_state "js ''Start-Analysis''"]
       send_command_replies [of None "Inl (TransportError (js ''EAGAIN''))" "[]" "[]"
         initial_state "js ''Start-Analysis''"]
  show ?thesis by (simp add: t error_reply_def)
qed

subsection \<open>The subscriptions\<close>

lemma step_subscriptions:
  "set (subscriptions (step rt st e)) \<subseteq> set (subscriptions st) \<union> {ascii ''progress'', ascii ''result''}"
  by (cases e)
     (auto simp: createWindow_def setupZMQ_def startBackend_def setupZMQ_turn_def loop_iteration_def
        send_command_def window_closed_def will_quit_def Let_def
        split: prod.splits option.splits sum.splits recv_outcome.splits if_splits)

lemma run_subscriptions:
  "set (subscriptions (run rt st evs)) \<subseteq> set (subscriptions st) \<union> {ascii ''progress'', ascii ''result''}"
proof (induction evs arbitrary: st)
  case Nil
  show ?case by auto
next
  case (Cons e evs)
  from Cons.IH [of "step rt st e"] step_subscriptions [of rt st e]
  show ?case by auto
qed

text \<open>
  C3, as the code has it. The subscriptions are prefixes: in every state the main process
  can reach, a published message whose first frame begins neither with \<open>progress\<close> nor with
  \<open>result\<close> is not handed to the receive loop and changes nothing; \<open>debug 1\<close> is such a frame.
\<close>

theorem unsubscribed_prefix_not_delivered:
  assumes "\<not> prefix (ascii ''progress'') frame" and "\<not> prefix (ascii ''result'') frame"
  shows "publish rt (run rt initial_state evs) (frame, others) = run rt initial_state evs"
proof -
  have "set (subscriptions (run rt initial_state evs)) \<subseteq> {ascii ''progress'', ascii ''result''}"
    using run_subscriptions [of rt initial_state evs] by (simp add: initial_state_def)
  with assms have "\<not> zmq_matches (subscriptions (run rt initial_state evs)) (frame, others)"
    by (auto simp: zmq_matches_def list_ex_iff)
  then show ?thesis by (simp add: publish_def)
qed

theorem unsubscribed_prefix_not_delivered_witness:
  "\<not> prefix (ascii ''progress'') (ascii ''debug 1'') \<and> \<not> prefix (ascii ''result'') (ascii ''debug 1'')
   \<and> publish example_dev (run example_dev initial_state [Ready]) (ascii ''debug 1'', [])
       = run example_dev initial_state [Ready]"
proof -
  have a: "\<not> prefix (ascii ''progress'') (ascii ''debug 1'')" by (simp add: ascii_def)
  have b: "\<not> prefix (ascii ''result'') (ascii ''debug 1'')" by (simp add: ascii_def)
  from unsubscribed_prefix_not_delivered [OF a b, of example_dev "[Ready]" "[]"] a b
  show ?thesis by simp
qed

text \<open>
  C3, as the claim states it, fails: the frame \<open>progressive 1\<close> has the topic \<open>progressive\<close>,
  which is neither \<open>progress\<close> nor \<open>result\<close>, and yet it matches the subscription \<open>progress\<close>
  and is sent to the window.
\<close>

theorem topic_outside_set_delivered_counterexample:
  "fst (decode_update (buffer_toString (ascii ''progressive 1''))) = js ''progressive''
   \<and> js ''progressive'' \<notin> {js ''progress'', js ''result''}
   \<and> ipc_sent (publish example_dev (run example_dev initial_state [Ready]) (ascii ''progressive 1'', []))
       = [(0, js ''progressive 1'')]"
proof -
  have t: "buffer_toString (ascii ''progressive 1'') = js ''progressive 1''"
    by (simp add: buffer_toString_def ascii_def js_def utf16_units_def)
  have d: "decode_update (js ''progressive 1'') = (js ''progressive'', js ''1'')"
    by (simp add: decode_update_def js_def)
  have n: "js ''progressive'' \<notin> {js ''progress'', js ''result''}"
    by (simp add: js_def)
  have m: "zmq_matches [ascii ''progress'', ascii ''result''] (ascii ''progressive 1'', [])"
    by (simp add: zmq_matches_def ascii_def)
  show ?thesis
    unfolding run_example_ready
    using n by (simp add: t d publish_def m setupZMQ_turn_def loop_iteration_def)
qed

subsection \<open>The worker process\<close>

text \<open>
  C5, as the code has it. \<open>will-quit\<close> signals the worker only when one was spawned and the
  runtime still holds its process: with no worker, with a worker that could not be started
  and with a worker that has exited it leaves the worker as it is; a running worker gets
  one signal. The handler keeps no record of having run, so a second invocation repeats the
  first exactly when there is no running worker, and signals a running worker again. It has
  no failing branch.
\<close>

theorem will_quit_signals_worker:
  "(pythonProcess st = None \<longrightarrow> pythonProcess (will_quit st) = None)
 \<and> (\<forall>p. pythonProcess st = Some p \<and> \<not> handle p \<longrightarrow> pythonProcess (will_quit st) = Some p)
 \<and> (\<forall>p. pythonProcess st = Some p \<and> handle p \<longrightarrow>
        pythonProcess (will_quit st) = Some (p\<lparr>signals := Suc (signals p)\<rparr>))
 \<and> (will_quit (will_quit st) = will_quit st \<longleftrightarrow>
        (\<forall>p. pythonProcess st = Some p \<longrightarrow> \<not> handle p))
 \<and> (\<forall>p err. pythonProcess st = Some p \<longrightarrow>
        pythonProcess (will_quit (step rt st (SpawnFailed err))) = Some (p\<lparr>handle := False\<rparr>)
      \<and> pythonProcess (will_quit (step rt st ChildExit)) = Some (p\<lparr>handle := False\<rparr>))"
proof -
  have neq: "p\<lparr>signals := Suc (Suc (signals p))\<rparr> \<noteq> p\<lparr>signals := Suc (signals p)\<rparr>"
    for p :: child_process
  proof
    assume "p\<lparr>signals := Suc (Suc (signals p))\<rparr> = p\<lparr>signals := Suc (signals p)\<rparr>"
    then have "signals (p\<lparr>signals := Suc (Suc (signals p))\<rparr>)
                 = signals (p\<lparr>signals := Suc (signals p)\<rparr>)"
      by simp
    then show False by simp
  qed
  show ?thesis
  proof (cases "pythonProcess st")
    case None
    then show ?thesis by (simp add: will_quit_def)
  next
    case (Some p)
    show ?thesis
    proof (cases "handle p")
      case False
      with Some show ?thesis by (simp add: will_quit_def kill_def)
    next
      case True
      have "will_quit (will_quit st) \<noteq> will_quit st"
      proof
        assume "will_quit (will_quit st) = will_quit st"
        then have "pythonProcess (will_quit (will_quit st)) = pythonProcess (will_quit st)" by simp
        with Some True show False by (simp add: will_quit_def kill_def neq)
      qed
      with Some True show ?thesis by (simp add: will_quit_def kill_def)
    qed
  qed
qed

theorem will_quit_signals_worker_witness:
  "pythonProcess (will_quit initial_state) = None
   \<and> pythonProcess (will_quit (run example_dev initial_state [Ready, ChildExit]))
       = pythonProcess (run example_dev initial_state [Ready, ChildExit])
   \<and> map_option signals (pythonProcess (will_quit (run example_dev initial_state [Ready]))) = Some 1
   \<and> will_quit (will_quit (run example_dev initial_state [Ready, ChildExit]))
       = will_quit (run example_dev initial_state [Ready, ChildExit])
   \<and> map_option signals
         (pythonProcess (will_quit (run example_dev initial_state
            [Ready, SpawnFailed (TransportError (js ''ENOENT''))]))) = Some 0"
proof -
  let ?p = "\<lparr>cmd = js ''python3'', args = [js ''/opt/app/py_backend/backend.py''],
             handle = True, signals = 0\<rparr>"
  have r: "pythonProcess (run example_dev initial_state [Ready]) = Some ?p"
    unfolding run_example_ready by simp
  have x: "pythonProcess (run example_dev initial_state [Ready, ChildExit]) = Some (?p\<lparr>handle := False\<rparr>)"
    unfolding run_example_exit run_example_ready by simp
  have i: "pythonProcess initial_state = None" by (simp add: initial_state_def)
  have f: "run example_dev initial_state [Ready, SpawnFailed (TransportError (js ''ENOENT''))]
             = step example_dev (run example_dev initial_state [Ready])
                 (SpawnFailed (TransportError (js ''ENOENT'')))"
    by simp
  note L = will_quit_signals_worker [of "run example_dev initial_state [Ready]" example_dev]
  from L r have "pythonProcess (will_quit (step example_dev (run example_dev initial_state [Ready])
                    (SpawnFailed (TransportError (js ''ENOENT''))))) = Some (?p\<lparr>handle := False\<rparr>)"
    by blast
  then have s: "map_option signals
         (pythonProcess (will_quit (run example_dev initial_state
            [Ready, SpawnFailed (TransportError (js ''ENOENT''))]))) = Some 0"
    unfolding f by simp
  note I = will_quit_signals_worker [of initial_state example_dev]
  note X = will_quit_signals_worker [of "run example_dev initial_state [Ready, ChildExit]" example_dev]
  from I i have a: "pythonProcess (will_quit initial_state) = None" by blast
  from X x have b: "pythonProcess (will_quit (run example_dev initial_state [Ready, ChildExit]))
       = pythonProcess (run example_dev initial_state [Ready, ChildExit])"
    by simp
  from L r have "pythonProcess (will_quit (run example_dev initial_state [Ready]))
                   = Some (?p\<lparr>signals := Suc (signals ?p)\<rparr>)"
    by simp
  then have c: "map_option signals (pythonProcess (will_quit (run example_dev initial_state [Ready]))) = Some 1"
    by simp
  from X x have d: "will_quit (will_quit (run example_dev initial_state [Ready, ChildExit]))
       = will_quit (run example_dev initial_state [Ready, ChildExit])"
    by simp
  from a b c d s show ?thesis by (intro conjI)
qed

text \<open>
  C5, as the claim states it, fails: with the worker running, \<open>will-quit\<close> invoked twice in
  sequence signals it twice, so the second invocation is not a no-op.
\<close>

theorem will_quit_twice_counterexample:
  "map_option handle (pythonProcess (run example_dev initial_state [Ready])) = Some True
   \<and> map_option signals (pythonProcess (will_quit (run example_dev initial_state [Ready]))) = Some 1
   \<and> map_option signals (pythonProcess (will_quit (will_quit (run example_dev initial_state [Ready]))))
       = Some 2
   \<and> will_quit (will_quit (run example_dev initial_state [Ready]))
       \<noteq> will_quit (run example_dev initial_state [Ready])"
proof -
  have h: "map_option handle (pythonProcess (run example_dev initial_state [Ready])) = Some True"
    unfolding run_example_ready by simp
  have a: "map_option signals (pythonProcess (will_quit (run example_dev initial_state [Ready]))) = Some 1"
    unfolding run_example_ready by (simp add: will_quit_def kill_def)
  have b: "map_option signals (pythonProcess (will_quit (will_quit (run example_dev initial_state [Ready]))))
       = Some 2"
    unfolding run_example_ready by (simp add: will_quit_def kill_def)
  from a b have "will_quit (will_quit (run example_dev initial_state [Ready]))
       \<noteq> will_quit (run example_dev initial_state [Ready])"
    by (metis numeral_eq_one_iff option.inject semiring_norm(85))
  with h a b show ?thesis by simp
qed

text \<open>
  C6. \<open>startBackend\<close> spawns the worker with parameters resolved from the deployment mode.
  In development the command is \<open>python\<close> on win32 and \<open>python3\<close> elsewhere, with the path
  of \<open>backend.py\<close> as the single argument; packaged, the command is \<open>backend.exe\<close> on win32
  and \<open>backend\<close> elsewhere, joined to the resource directory of the runtime, with no argument.
\<close>

theorem startBackend_launch_parameters:
  "(\<not> isPackaged rt \<longrightarrow>
      pythonProcess (startBackend rt st) =
        Some (spawn (if platform rt = js ''win32'' then js ''python'' else js ''python3'')
                    [path_join rt [dirname rt, js ''..'', js ''py_backend'', js ''backend.py'']]))
 \<and> (isPackaged rt \<longrightarrow>
      pythonProcess (startBackend rt st) =
        Some (spawn (path_join rt [resourcesPath rt,
                       if platform rt = js ''win32'' then js ''backend.exe'' else js ''backend''])
                    []))"
  by (simp add: startBackend_def startBackend_launch_def Let_def)

theorem startBackend_launch_parameters_witness:
  "\<not> isPackaged example_dev
   \<and> pythonProcess (startBackend example_dev initial_state) =
       Some \<lparr>cmd = js ''python3'', args = [js ''/opt/app/py_backend/backend.py''],
             handle = True, signals = 0\<rparr>
   \<and> isPackaged example_packaged
   \<and> pythonProcess (startBackend example_packaged initial_state) =
       Some \<lparr>cmd = js ''/opt/app/resources/backend'', args = [], handle = True, signals = 0\<rparr>"
proof -
  have dev: "\<not> isPackaged example_dev" by (simp add: example_dev_def)
  have pkg: "isPackaged example_packaged" by (simp add: example_packaged_def)
  have d: "path_join example_dev [dirname example_dev, js ''..'', js ''py_backend'', js ''backend.py'']
             = js ''/opt/app/py_backend/backend.py''"
    by (simp add: example_dev_def posix_join_def js_def)
  have p: "path_join example_packaged [resourcesPath example_packaged, js ''backend'']
             = js ''/opt/app/resources/backend''"
    by (simp add: example_packaged_def posix_join_def js_def)
  have pl: "platform example_dev \<noteq> js ''win32''" "platform example_packaged \<noteq> js ''win32''"
    by (simp_all add: example_dev_def example_packaged_def js_def)
  from startBackend_launch_parameters [of example_dev initial_state]
       startBackend_launch_parameters [of example_packaged initial_state]
  show ?thesis using dev pkg d p pl by (simp add: spawn_def)
qed

subsection \<open>The receive loop\<close>

lemma receiving_step:
  assumes "receiving st"
  shows "(\<not> receiving (step rt st e)) =
           (e = SubOutcome SocketClosed \<or> (\<exists>err. e = SubOutcome (RecvFailed err)))"
proof (cases e)
  case (SubOutcome r)
  with assms show ?thesis
    by (cases r) (auto simp: setupZMQ_turn_def loop_iteration_def split: option.splits)
qed (use assms in \<open>auto simp: createWindow_def setupZMQ_def send_command_def window_closed_def
       will_quit_def Let_def split: option.splits sum.splits\<close>)

lemma not_receiving_step:
  assumes "\<not> receiving st" and "e \<noteq> Ready"
  shows "\<not> receiving (step rt st e)"
  using assms
  by (cases e)
     (auto simp: createWindow_def setupZMQ_turn_def send_command_def window_closed_def
        will_quit_def Let_def split: option.splits sum.splits)

lemma not_receiving_run:
  assumes "\<not> receiving st" and "Ready \<notin> set evs"
  shows "\<not> receiving (run rt st evs)"
  using assms
proof (induction evs arbitrary: st)
  case Nil
  then show ?case by simp
next
  case (Cons e evs)
  from Cons.prems have "e \<noteq> Ready" and "Ready \<notin> set evs" by auto
  with Cons.prems have "\<not> receiving (step rt st e)" by (simp add: not_receiving_step)
  with Cons.IH \<open>Ready \<notin> set evs\<close> show ?case by simp
qed

lemma received_turn:
  assumes "receiving st"
  shows "step rt st (SubOutcome (Received m)) =
           (case mainWindow st of
              None \<Rightarrow> st
            | Some w \<Rightarrow> st\<lparr>ipc_sent := ipc_sent st @ [(w, buffer_toString (fst m))]\<rparr>)"
  using assms by (simp add: setupZMQ_turn_def loop_iteration_def split: option.splits)

lemma received_run:
  assumes "receiving st"
  shows "receiving (run rt st (map (\<lambda>m. SubOutcome (Received m)) ms))
       \<and> ipc_sent (run rt st (map (\<lambda>m. SubOutcome (Received m)) ms)) =
           ipc_sent st @ (case mainWindow st of
                            None \<Rightarrow> []
                          | Some w \<Rightarrow> map (\<lambda>m. (w, buffer_toString (fst m))) ms)"
  using assms
proof (induction ms arbitrary: st)
  case Nil
  then show ?case by (simp split: option.splits)
next
  case (Cons m ms)
  let ?st' = "step rt st (SubOutcome (Received m))"
  have st': "?st' = (case mainWindow st of
              None \<Rightarrow> st
            | Some w \<Rightarrow> st\<lparr>ipc_sent := ipc_sent st @ [(w, buffer_toString (fst m))]\<rparr>)"
    using Cons.prems by (rule received_turn)
  then have r: "receiving ?st'" and w: "mainWindow ?st' = mainWindow st"
    using Cons.prems by (auto split: option.splits)
  from Cons.IH [OF r] w st' show ?case
    by (auto split: option.splits)
qed

text \<open>
  C7. While the loop receives, every message received is handed to the forwarding step in
  the turn that receives it and the loop goes on, for any number of messages. Among all
  events of the main process only a thrown transport error and the end of the iteration
  after a close end the loop. On a transport error the turn logs the error and ends the
  loop, leaving the rest of the state of the main process as it was: the exception is
  caught. After that no event but a second start of the application makes the loop receive
  again, so nothing restarts or retries it.
\<close>

theorem receive_loop_lifecycle:
  assumes "receiving st"
  shows "receiving (run rt st (map (\<lambda>m. SubOutcome (Received m)) ms))
       \<and> ipc_sent (run rt st (map (\<lambda>m. SubOutcome (Received m)) ms)) =
           ipc_sent st @ (case mainWindow st of
                            None \<Rightarrow> []
                          | Some w \<Rightarrow> map (\<lambda>m. (w, buffer_toString (fst m))) ms)
       \<and> (\<forall>e. (\<not> receiving (step rt st e)) =
                (e = SubOutcome SocketClosed \<or> (\<exists>err. e = SubOutcome (RecvFailed err))))
       \<and> step rt st (SubOutcome (RecvFailed err)) =
           st\<lparr>console := console st @ [ConsoleError (js ''[Electron] ZeroMQ Error:'') (Some err)],
              receiving := False\<rparr>
       \<and> (Ready \<notin> set evs \<longrightarrow>
            \<not> receiving (run rt (step rt st (SubOutcome (RecvFailed err))) evs))"
proof -
  have f: "step rt st (SubOutcome (RecvFailed err)) =
           st\<lparr>console := console st @ [ConsoleError (js ''[Electron] ZeroMQ Error:'') (Some err)],
              receiving := False\<rparr>"
    using assms by (simp add: setupZMQ_turn_def loop_iteration_def)
  then have "\<not> receiving (step rt st (SubOutcome (RecvFailed err)))" by simp
  then have n: "Ready \<notin> set evs \<longrightarrow>
            \<not> receiving (run rt (step rt st (SubOutcome (RecvFailed err))) evs)"
    by (simp add: not_receiving_run)
  from received_run [OF assms, of rt ms] receiving_step [OF assms, of rt] f n
  show ?thesis by blast
qed

theorem receive_loop_lifecycle_witness:
  "receiving (run example_dev initial_state [Ready])
   \<and> receiving (run example_dev (run example_dev initial_state [Ready])
        [SubOutcome (Received (ascii ''progress 1'', [])), SubOutcome (Received (ascii ''result 2'', []))])
   \<and> ipc_sent (run example_dev (run example_dev initial_state [Ready])
        [SubOutcome (Received (ascii ''progress 1'', [])), SubOutcome (Received (ascii ''result 2'', []))])
       = [(0, js ''progress 1''), (0, js ''result 2'')]
   \<and> \<not> receiving (step example_dev (run example_dev initial_state [Ready])
                     (SubOutcome (RecvFailed (TransportError (js ''ETERM'')))))
   \<and> Ready \<notin> set [SubOutcome (Received (ascii ''progress 1'', [])), Activate 0, WindowClosed]
   \<and> \<not> receiving (run example_dev
         (step example_dev (run example_dev initial_state [Ready])
            (SubOutcome (RecvFailed (TransportError (js ''ETERM'')))))
         [SubOutcome (Received (ascii ''progress 1'', [])), Activate 0, WindowClosed])"
proof -
  have r: "receiving (run example_dev initial_state [Ready])"
    unfolding run_example_ready by simp
  have w: "mainWindow (run example_dev initial_state [Ready]) = Some 0"
    and i: "ipc_sent (run example_dev initial_state [Ready]) = []"
    unfolding run_example_ready by simp_all
  have t: "buffer_toString (ascii ''progress 1'') = js ''progress 1''"
          "buffer_toString (ascii ''result 2'') = js ''result 2''"
    by (simp_all add: buffer_toString_def ascii_def js_def utf16_units_def)
  have e: "Ready \<notin> set [SubOutcome (Received (ascii ''progress 1'', [])), Activate 0, WindowClosed]"
    by simp
  note L = receive_loop_lifecycle [OF r, of example_dev
         "[(ascii ''progress 1'', []), (ascii ''result 2'', [])]"
         "TransportError (js ''ETERM'')"
         "[SubOutcome (Received (ascii ''progress 1'', [])), Activate 0, WindowClosed]"]
  from L have a: "receiving (run example_dev (run example_dev initial_state [Ready])
        [SubOutcome (Received (ascii ''progress 1'', [])), SubOutcome (Received (ascii ''result 2'', []))])"
    by (simp del: run.simps step.simps)
  from L have b: "ipc_sent (run example_dev (run example_dev initial_state [Ready])
        [SubOutcome (Received (ascii ''progress 1'', [])), SubOutcome (Received (ascii ''result 2'', []))])
       = [(0, js ''progress 1''), (0, js ''result 2'')]"
    using w i t by (simp del: run.simps step.simps)
  from L have c: "\<not> receiving (step example_dev (run example_dev initial_state [Ready])
                     (SubOutcome (RecvFailed (TransportError (js ''ETERM'')))))"
    by blast
  from L e have d: "\<not> receiving (run example_dev
         (step example_dev (run example_dev initial_state [Ready])
            (SubOutcome (RecvFailed (TransportError (js ''ETERM'')))))
         [SubOutcome (Received (ascii ''progress 1'', [])), Activate 0, WindowClosed])"
    by blast
  from r a b c e d show ?thesis by blast
qed

lemma invalid_utf8_replaced:
  assumes "\<not> valid_utf8 frame"
  shows "0xFFFD \<in> set (buffer_toString frame)"
proof -
  from assms have "None \<in> set (utf8_scan 0 0 0x80 0xBF frame)"
    by (auto simp: valid_utf8_def list_all_iff)
  then show ?thesis
    by (force simp: buffer_toString_def)
qed

text \<open>
  C8, as the code has it. The loop validates nothing. While it receives and a window exists,
  the first frame of every message it receives, whatever its bytes, is decoded and sent to
  the window; nothing is logged, further frames of the message are not looked at, and the
  loop goes on to the next message. This is what happens to every published message that
  passes the subscriptions. A first frame that is not UTF-8 arrives with U+FFFD in the
  place of its invalid bytes.
\<close>

theorem received_frame_forwarded:
  assumes "receiving st" and "mainWindow st = Some w"
  shows "step rt st (SubOutcome (Received (frame, others))) =
           st\<lparr>ipc_sent := ipc_sent st @ [(w, buffer_toString frame)]\<rparr>
       \<and> (zmq_matches (subscriptions st) (frame, others) \<longrightarrow>
            publish rt st (frame, others) =
              st\<lparr>ipc_sent := ipc_sent st @ [(w, buffer_toString frame)]\<rparr>)
       \<and> (\<not> valid_utf8 frame \<longrightarrow> 0xFFFD \<in> set (buffer_toString frame))"
  using assms
  by (simp add: publish_def setupZMQ_turn_def loop_iteration_def invalid_utf8_replaced)

theorem received_frame_forwarded_witness:
  "receiving (run example_dev initial_state [Ready])
   \<and> mainWindow (run example_dev initial_state [Ready]) = Some 0
   \<and> zmq_matches (subscriptions (run example_dev initial_state [Ready]))
        (ascii ''progress '' @ [0xC3, 0x28], [])
   \<and> \<not> valid_utf8 (ascii ''progress '' @ [0xC3, 0x28])
   \<and> 0xFFFD \<in> set (buffer_toString (ascii ''progress '' @ [0xC3, 0x28]))
   \<and> publish example_dev (run example_dev initial_state [Ready])
        (ascii ''progress '' @ [0xC3, 0x28], [])
       = (run example_dev initial_state [Ready])
           \<lparr>ipc_sent := [(0, js ''progress '' @ [0xFFFD, 0x28])]\<rparr>"
proof -
  have r: "receiving (run example_dev initial_state [Ready])"
    and w: "mainWindow (run example_dev initial_state [Ready]) = Some 0"
    and i: "ipc_sent (run example_dev initial_state [Ready]) = []"
    and s: "subscriptions (run example_dev initial_state [Ready]) = [ascii ''progress'', ascii ''result'']"
    unfolding run_example_ready by simp_all
  have m: "zmq_matches (subscriptions (run example_dev initial_state [Ready]))
             (ascii ''progress '' @ [0xC3, 0x28], [])"
    unfolding s by (simp add: zmq_matches_def ascii_def)
  have v: "\<not> valid_utf8 (ascii ''progress '' @ [0xC3, 0x28])"
    by (simp add: valid_utf8_def ascii_def)
  have t: "buffer_toString (ascii ''progress '' @ [0xC3, 0x28]) = js ''progress '' @ [0xFFFD, 0x28]"
    by (simp add: buffer_toString_def utf16_units_def ascii_def js_def)
  note L = received_frame_forwarded [OF r w, of example_dev "ascii ''progress '' @ [0xC3, 0x28]" "[]"]
  from L m have p: "publish example_dev (run example_dev initial_state [Ready])
        (ascii ''progress '' @ [0xC3, 0x28], [])
       = (run example_dev initial_state [Ready])
           \<lparr>ipc_sent := ipc_sent (run example_dev initial_state [Ready])
               @ [(0, buffer_toString (ascii ''progress '' @ [0xC3, 0x28]))]\<rparr>"
    by blast
  from L v have u: "0xFFFD \<in> set (buffer_toString (ascii ''progress '' @ [0xC3, 0x28]))"
    by blast
  have q: "publish example_dev (run example_dev initial_state [Ready])
        (ascii ''progress '' @ [0xC3, 0x28], [])
       = (run example_dev initial_state [Ready])
           \<lparr>ipc_sent := [(0, js ''progress '' @ [0xFFFD, 0x28])]\<rparr>"
    unfolding p i t by simp
  from r w m v u q show ?thesis by (intro conjI)
qed

text \<open>
  C8, as the claim states it, fails: the frame made of \<open>progress\<close>, a space and the byte 0xFF
  passes the subscription \<open>progress\<close> and is not UTF-8; it is forwarded to the window, with
  U+FFFD for the byte, while the console stays as it was and the loop goes on.
\<close>

theorem invalid_frame_forwarded_counterexample:
  "\<not> valid_utf8 (ascii ''progress '' @ [0xFF])
   \<and> ipc_sent (publish example_dev (run example_dev initial_state [Ready])
                 (ascii ''progress '' @ [0xFF], []))
       = [(0, js ''progress '' @ [0xFFFD])]
   \<and> console (publish example_dev (run example_dev initial_state [Ready])
                 (ascii ''progress '' @ [0xFF], []))
       = console (run example_dev initial_state [Ready])
   \<and> receiving (publish example_dev (run example_dev initial_state [Ready])
                 (ascii ''progress '' @ [0xFF], []))"
proof -
  have v: "\<not> valid_utf8 (ascii ''progress '' @ [0xFF])"
    by (simp add: valid_utf8_def ascii_def)
  have t: "buffer_toString (ascii ''progress '' @ [0xFF]) = js ''progress '' @ [0xFFFD]"
    by (simp add: buffer_toString_def utf16_units_def ascii_def js_def)
  have m: "zmq_matches [ascii ''progress'', ascii ''result''] (ascii ''progress '' @ [0xFF], [])"
    by (simp add: zmq_matches_def ascii_def)
  show ?thesis
    unfolding run_example_ready
    using v by (simp add: t m publish_def setupZMQ_turn_def loop_iteration_def)
qed

text \<open>
  C9. No window exists at the start and after the window has closed. A message received
  while no window exists leaves the whole state of the main process as it was: nothing is
  sent, logged or stored, nothing is raised, the loop is as before, and whatever happens
  later happens as if the message had never arrived.
\<close>

theorem frame_without_window_discarded:
  "mainWindow initial_state = None
 \<and> mainWindow (step rt st0 WindowClosed) = None
 \<and> (mainWindow st = None \<longrightarrow>
      step rt st (SubOutcome (Received m)) = st
    \<and> run rt (step rt st (SubOutcome (Received m))) evs = run rt st evs)"
  by (simp add: initial_state_def window_closed_def setupZMQ_turn_def loop_iteration_def)

theorem frame_without_window_discarded_witness:
  "mainWindow (run example_dev initial_state [Ready, WindowClosed]) = None
   \<and> receiving (run example_dev initial_state [Ready, WindowClosed])
   \<and> step example_dev (run example_dev initial_state [Ready, WindowClosed])
          (SubOutcome (Received (ascii ''progress 1'', [])))
       = run example_dev initial_state [Ready, WindowClosed]
   \<and> ipc_sent (run example_dev initial_state
        [Ready, WindowClosed, SubOutcome (Received (ascii ''progress 1'', [])), Activate 0]) = []"
proof -
  have s: "run example_dev initial_state [Ready, WindowClosed] =
             step example_dev (run example_dev initial_state [Ready]) WindowClosed"
    by simp
  have n: "mainWindow (run example_dev initial_state [Ready, WindowClosed]) = None"
    and r: "receiving (run example_dev initial_state [Ready, WindowClosed])"
    and i: "ipc_sent (run example_dev initial_state [Ready, WindowClosed]) = []"
    unfolding s run_example_ready by (simp_all add: window_closed_def)
  have e: "run example_dev initial_state
        [Ready, WindowClosed, SubOutcome (Received (ascii ''progress 1'', [])), Activate 0]
      = run example_dev (step example_dev (run example_dev initial_state [Ready, WindowClosed])
          (SubOutcome (Received (ascii ''progress 1'', [])))) [Activate 0]"
    by simp
  note L = frame_without_window_discarded [of example_dev
      "run example_dev initial_state [Ready]"
      "run example_dev initial_state [Ready, WindowClosed]" "(ascii ''progress 1'', [])" "[Activate 0]"]
  from L n have a: "step example_dev (run example_dev initial_state [Ready, WindowClosed])
          (SubOutcome (Received (ascii ''progress 1'', [])))
       = run example_dev initial_state [Ready, WindowClosed]"
    by blast
  have "ipc_sent (run example_dev initial_state
        [Ready, WindowClosed, SubOutcome (Received (ascii ''progress 1'', [])), Activate 0]) = []"
    unfolding e a using i by (simp add: createWindow_def)
  with n r a show ?thesis by blast
qed

end
